theory Spec2Isabelle
  imports Main
begin

section \<open>Exceptions of the engine and of the interpreter\<close>

text \<open>
  The exception classes that occur in \<^verbatim>\<open>cypherantic/__init__.py\<close>. The three classes
  of the engine are declared there with their bases; the others are Python's own, with
  \<open>Exception\<close> for their base (\<open>LookupError\<close>, between it and \<open>KeyError\<close> and
  \<open>IndexError\<close>, is left out). \<open>DriverError\<close> stands for whatever class a session's
  \<^verbatim>\<open>run\<close> raises.
\<close>

datatype exc_class =
    Exception
  | ValueError
  | TypeError
  | KeyError
  | IndexError
  | AttributeError
  | CypheranticError
  | InvalidValueError
  | InvalidRelationshipError
  | DriverError

fun bases :: "exc_class \<Rightarrow> exc_class list" where
  "bases CypheranticError = [Exception]"
| "bases InvalidValueError = [CypheranticError, ValueError]"
| "bases InvalidRelationshipError = [InvalidValueError]"
| "bases Exception = []"
| "bases c = [Exception]"

fun class_depth :: "exc_class \<Rightarrow> nat" where
  "class_depth Exception = 0"
| "class_depth CypheranticError = 1"
| "class_depth InvalidValueError = 2"
| "class_depth InvalidRelationshipError = 3"
| "class_depth c = 1"

function issubclass :: "exc_class \<Rightarrow> exc_class \<Rightarrow> bool" where
  "issubclass c d = (c = d \<or> list_ex (\<lambda>b. issubclass b d) (bases c))"
  by pat_completeness auto
termination
proof (relation "measure (\<lambda>(c, d). class_depth c)")
  show "wf (measure (\<lambda>(c, d). class_depth c))"
    by simp
next
  fix c d b :: exc_class
  assume "b \<in> set (bases c)"
  then have "class_depth b < class_depth c"
    by (cases c) auto
  then show "((b, d), (c, d)) \<in> measure (\<lambda>(c, d). class_depth c)"
    by simp
qed

declare issubclass.simps [simp del]

record exc =
  exc_cls :: exc_class
  exc_msg :: string

definition raise :: "exc_class \<Rightarrow> string \<Rightarrow> exc" where
  "raise c m = \<lparr>exc_cls = c, exc_msg = m\<rparr>"

definition isinstance :: "exc \<Rightarrow> exc_class \<Rightarrow> bool" where
  "isinstance e c = issubclass (exc_cls e) c"

section \<open>Values, model classes and instances\<close>

datatype pyval =
    VNone
  | VBool bool
  | VInt int
  | VStr string
  | VList "pyval list"
  | VDict "(string \<times> pyval) list"
  | VObject string

text \<open>\<^verbatim>\<open>json.dumps\<close> raises TypeError on an object it has no encoding for.\<close>

fun json_serializable :: "pyval \<Rightarrow> bool" where
  "json_serializable (VObject n) = False"
| "json_serializable (VList xs) = list_all json_serializable xs"
| "json_serializable (VDict kvs) = list_all json_serializable (map snd kvs)"
| "json_serializable v = True"

text \<open>A Python dict as an association list in insertion order: assigning to a key that
  is present keeps its position.\<close>

fun dict_set :: "('k \<times> 'v) list \<Rightarrow> 'k \<Rightarrow> 'v \<Rightarrow> ('k \<times> 'v) list" where
  "dict_set [] k v = [(k, v)]"
| "dict_set ((k', v') # kvs) k v =
     (if k' = k then (k, v) # kvs else (k', v') # dict_set kvs k v)"

fun str_join :: "string \<Rightarrow> string list \<Rightarrow> string" where
  "str_join sep [] = []"
| "str_join sep [x] = x"
| "str_join sep (x # y # ys) = x @ sep @ str_join sep (y # ys)"

datatype metadata =
    Field_md bool
  | Relationship string string
  | OtherMetadata

datatype origin = SequenceClass | NonSequenceClass | NotAClass

record config =
  cfg_labels :: "string list option"
  cfg_rel_type :: "string option"

definition empty_config :: config where
  "empty_config = \<lparr>cfg_labels = None, cfg_rel_type = None\<rparr>"

datatype model_cls = ModelCls
  (cls_id: nat)
  (cls_name: string)
  (cypherantic_config: "config option")
  (model_fields: "(string \<times> field_info) list")
and type_hint =
    ModelHint model_cls
  | OtherClassHint
  | NotAClassHint
and edge_cls = EdgeCls
  (type_hints: "(string \<times> type_hint) list")
  (init_params: "string list")
and field_info = FieldInfo
  (anno_origin: "origin option")
  (anno_args: "edge_cls list")
  (field_metadata: "metadata list")

text \<open>An instance: its class, its attributes (what \<^verbatim>\<open>getattr\<close> reads) and the
  dictionary that \<^verbatim>\<open>model_dump(mode='python')\<close> returns.\<close>

record model =
  model_type :: model_cls
  attrs :: "(string \<times> pyval) list"
  model_dump :: "(string \<times> pyval) list"

section \<open>Schema facts\<close>

definition getattr_config :: "model_cls \<Rightarrow> config" where
  "getattr_config c = (case cypherantic_config c of None \<Rightarrow> empty_config | Some cfg \<Rightarrow> cfg)"

definition extract_labels :: "model_cls \<Rightarrow> string list" where
  "extract_labels c =
     (case cfg_labels (getattr_config c) of
        Some ls \<Rightarrow> ls
      | None \<Rightarrow> [cls_name c])"

fun unique_marks :: "string \<Rightarrow> metadata list \<Rightarrow> string list" where
  "unique_marks f [] = []"
| "unique_marks f (Field_md u # mds) = (if u then f # unique_marks f mds else unique_marks f mds)"
| "unique_marks f (md # mds) = unique_marks f mds"

fun extract_key_fields_from :: "(string \<times> field_info) list \<Rightarrow> string list" where
  "extract_key_fields_from [] = []"
| "extract_key_fields_from ((f, info) # fs) =
     unique_marks f (field_metadata info) @ extract_key_fields_from fs"

definition extract_key_fields :: "model_cls \<Rightarrow> string list" where
  "extract_key_fields c = extract_key_fields_from (model_fields c)"

fun match_props :: "string \<Rightarrow> string list \<Rightarrow> (string \<times> string) list \<Rightarrow> (string \<times> string) list" where
  "match_props alias [] d = d"
| "match_props alias (f # fs) d = match_props alias fs (dict_set d f (''$'' @ alias @ ''.'' @ f))"

definition build_match_clause :: "model_cls \<Rightarrow> string \<Rightarrow> string" where
  "build_match_clause c alias =
     (let props = match_props alias (extract_key_fields c) []
      in if props \<noteq> []
         then ''{'' @ str_join '','' (map (\<lambda>(key, v). key @ '':'' @ v) props) @ ''}''
         else '''')"

section \<open>Sessions and the state of the process\<close>

type_synonym row = "(string \<times> pyval) list"
type_synonym call = "string \<times> (string \<times> pyval) list"

text \<open>
  A session is the caller's: whether it is a \<^verbatim>\<open>neo4j.AsyncTransaction\<close>, and what its
  \<^verbatim>\<open>run\<close> answers to a call, given the calls made before it. The state of the process is
  the module's set \<^verbatim>\<open>_known_constraints\<close> (a set of class objects, which hash by identity:
  \<open>cls_id\<close>) and the calls that reached a session's \<^verbatim>\<open>run\<close>, in order.
\<close>

record session =
  is_transaction :: bool
  run :: "call list \<Rightarrow> call \<Rightarrow> exc + row list"

record state =
  known_constraints :: "nat set"
  run_calls :: "call list"

definition instrumented_run ::
  "session \<Rightarrow> string \<Rightarrow> (string \<times> pyval) list \<Rightarrow> state \<Rightarrow> (exc + row list) \<times> state" where
  "instrumented_run s query parameters st =
     (if \<not> json_serializable (VDict parameters)
      then (Inl (raise TypeError ''Object is not JSON serializable''), st)
      else (run s (run_calls st) (query, parameters),
            st\<lparr>run_calls := run_calls st @ [(query, parameters)]\<rparr>))"

text \<open>\<^verbatim>\<open>result.single()\<close> is the first row, or None when there is none. Indexing a
  \<^verbatim>\<open>neo4j.Record\<close> by a position it does not have returns None; by a key it does not have it
  raises KeyError.\<close>

definition single :: "row list \<Rightarrow> row option" where
  "single rows = (case rows of [] \<Rightarrow> None | r # _ \<Rightarrow> Some r)"

section \<open>Constraints\<close>

definition constraint_query :: "model_cls \<Rightarrow> string \<Rightarrow> string list \<Rightarrow> string" where
  "constraint_query c first_label unique_constraints =
     ''CREATE CONSTRAINT '' @ cls_name c @ ''_unique IF NOT EXISTS '' @
     ''FOR (n:'' @ first_label @ '') REQUIRE ('' @
     str_join '', '' (map (\<lambda>prop. ''n.'' @ prop) unique_constraints) @ '') IS UNIQUE''"

definition ensure_constraints ::
  "session \<Rightarrow> model_cls \<Rightarrow> string list \<Rightarrow> state \<Rightarrow> (exc + unit) \<times> state" where
  "ensure_constraints s c node_labels st =
     (if is_transaction s then (Inr (), st)
      else case node_labels of
        [] \<Rightarrow> (Inr (), st)
      | first_label # _ \<Rightarrow>
          if cls_id c \<in> known_constraints st then (Inr (), st)
          else
            let unique_constraints = extract_key_fields_from (model_fields c)
            in if unique_constraints \<noteq> []
               then (case instrumented_run s
                            (constraint_query c first_label unique_constraints) [] st of
                       (Inl e, st') \<Rightarrow> (Inl e, st')
                     | (Inr _, st') \<Rightarrow>
                         (Inr (), st'\<lparr>known_constraints :=
                                        insert (cls_id c) (known_constraints st')\<rparr>))
               else (Inr (), st\<lparr>known_constraints :=
                                   insert (cls_id c) (known_constraints st)\<rparr>))"

section \<open>Creating a node\<close>

fun has_relationship :: "metadata list \<Rightarrow> bool" where
  "has_relationship [] = False"
| "has_relationship (Relationship t d # mds) = True"
| "has_relationship (md # mds) = has_relationship mds"

fun node_properties ::
  "model_cls \<Rightarrow> (string \<times> pyval) list \<Rightarrow> (string \<times> pyval) list
     \<Rightarrow> exc + (string \<times> pyval) list" where
  "node_properties c [] properties = Inr properties"
| "node_properties c ((field_name, field_value) # rest) properties =
     (case map_of (model_fields c) field_name of
        None \<Rightarrow> Inl (raise KeyError field_name)
      | Some info \<Rightarrow>
          if has_relationship (field_metadata info)
          then node_properties c rest properties
          else node_properties c rest (dict_set properties field_name field_value))"

definition create_node_query :: "string list \<Rightarrow> string" where
  "create_node_query node_labels =
     ''CREATE (n:'' @ str_join ''&'' node_labels @ '' $properties) RETURN n''"

definition create_node_labels :: "model \<Rightarrow> string list" where
  "create_node_labels m =
     (case cfg_labels (getattr_config (model_type m)) of
        Some ls \<Rightarrow> ls
      | None \<Rightarrow> [cls_name (model_type m)])"

definition create_node :: "session \<Rightarrow> model \<Rightarrow> state \<Rightarrow> (exc + pyval) \<times> state" where
  "create_node s m st =
     (let c = model_type m;
          node_labels = create_node_labels m;
          (ensured, st1) = (if cls_id c \<notin> known_constraints st
                            then ensure_constraints s c node_labels st
                            else (Inr (), st))
      in case ensured of
           Inl e \<Rightarrow> (Inl e, st1)
         | Inr _ \<Rightarrow>
             (case node_properties c (model_dump m) [] of
                Inl e \<Rightarrow> (Inl e, st1)
              | Inr properties \<Rightarrow>
                  (case instrumented_run s (create_node_query node_labels)
                          [(''properties'', VDict properties)] st1 of
                     (Inl e, st2) \<Rightarrow> (Inl e, st2)
                   | (Inr rows, st2) \<Rightarrow>
                       (case single rows of
                          None \<Rightarrow> (Inl (raise CypheranticError ''Failed to create node''), st2)
                        | Some [] \<Rightarrow> (Inr VNone, st2)
                        | Some ((_, v) # _) \<Rightarrow> (Inr v, st2)))))"

section \<open>Creating a relationship\<close>

fun key_props ::
  "model \<Rightarrow> string list \<Rightarrow> (string \<times> pyval) list \<Rightarrow> exc + (string \<times> pyval) list" where
  "key_props m [] d = Inr d"
| "key_props m (field # key_fields) d =
     (case map_of (attrs m) field of
        None \<Rightarrow> Inl (raise AttributeError field)
      | Some v \<Rightarrow> key_props m key_fields (dict_set d field v))"

definition create_relationship_query :: "model_cls \<Rightarrow> model_cls \<Rightarrow> string" where
  "create_relationship_query from_node_cls to_node_cls =
     ''MATCH (a:'' @ str_join ''&'' (extract_labels from_node_cls) @ '' '' @
       build_match_clause from_node_cls ''from_node_props'' @ '')'' @
     '' WITH a '' @
     ''MATCH (b:'' @ str_join ''&'' (extract_labels to_node_cls) @ '' '' @
       build_match_clause to_node_cls ''to_node_props'' @ '')'' @
     '' CREATE (a)-[r:$($rel_name) $rel_props]->(b)'' @
     '' RETURN r''"

definition create_relationship ::
  "session \<Rightarrow> model \<Rightarrow> model \<Rightarrow> model option \<Rightarrow> string option \<Rightarrow> state
     \<Rightarrow> (exc + pyval) \<times> state" where
  "create_relationship s from_node to_node rel_props rel_type st =
     (case (case rel_type of
              Some t \<Rightarrow> Inr t
            | None \<Rightarrow>
                (case rel_props of
                   Some p \<Rightarrow>
                     (let rel_cls = model_type p
                      in case cfg_rel_type (getattr_config rel_cls) of
                           Some t \<Rightarrow> Inr t
                         | None \<Rightarrow> Inr (cls_name rel_cls))
                 | None \<Rightarrow>
                     Inl (raise CypheranticError
                            ''Either rel_cls or rel_type must be provided''))) of
        Inl e \<Rightarrow> (Inl e, st)
      | Inr rel_name \<Rightarrow>
          (let from_node_cls = model_type from_node;
               to_node_cls = model_type to_node
           in case key_props from_node (extract_key_fields from_node_cls) [] of
                Inl e \<Rightarrow> (Inl e, st)
              | Inr from_node_props \<Rightarrow>
                  (case key_props to_node (extract_key_fields to_node_cls) [] of
                     Inl e \<Rightarrow> (Inl e, st)
                   | Inr to_node_props \<Rightarrow>
                       (let parameters =
                              [(''from_node_props'', VDict from_node_props),
                               (''rel_name'', VStr rel_name),
                               (''rel_props'',
                                  VDict (case rel_props of
                                           Some p \<Rightarrow> model_dump p
                                         | None \<Rightarrow> [])),
                               (''to_node_props'', VDict to_node_props)]
                        in case instrumented_run s
                                  (create_relationship_query from_node_cls to_node_cls)
                                  parameters st of
                             (Inl e, st') \<Rightarrow> (Inl e, st')
                           | (Inr rows, st') \<Rightarrow>
                               (case single rows of
                                  None \<Rightarrow>
                                    (Inl (raise CypheranticError
                                            ''Failed to create relationship''), st')
                                | Some [] \<Rightarrow> (Inr VNone, st')
                                | Some ((_, v) # _) \<Rightarrow> (Inr v, st'))))))"

section \<open>Retrieving the edges of a relationship\<close>

definition dquote :: string where
  "dquote = [CHR 0x22]"

definition validate_edge_type :: "edge_cls \<Rightarrow> exc + model_cls \<times> model_cls" where
  "validate_edge_type tp =
     (let type_info = type_hints tp
      in case (map_of type_info ''node'', map_of type_info ''properties'') of
           (Some node_hint, Some properties_hint) \<Rightarrow>
             (case node_hint of
                NotAClassHint \<Rightarrow> Inl (raise TypeError ''issubclass() arg 1 must be a class'')
              | OtherClassHint \<Rightarrow>
                  Inl (raise TypeError
                         (dquote @ ''node'' @ dquote @ '' attribute must be a pydantic BaseModel subclass''))
              | ModelHint node_cls \<Rightarrow>
                  (case properties_hint of
                     NotAClassHint \<Rightarrow>
                       Inl (raise TypeError ''issubclass() arg 1 must be a class'')
                   | OtherClassHint \<Rightarrow>
                       Inl (raise TypeError
                              (dquote @ ''properties'' @ dquote
                                 @ '' attribute must be a pydantic BaseModel subclass''))
                   | ModelHint properties_cls \<Rightarrow>
                       if ''node'' \<notin> set (init_params tp)
                          \<or> ''properties'' \<notin> set (init_params tp)
                       then Inl (raise TypeError
                                   (''Edge type must have '' @ dquote @ ''node'' @ dquote @ '' and ''
                                    @ dquote @ ''properties'' @ dquote @ '' parameters in''
                                    @ '' its initializer''))
                       else Inr (node_cls, properties_cls)))
         | _ \<Rightarrow> Inl (raise TypeError
                       (''Edge type must have '' @ dquote @ ''node'' @ dquote @ '' and ''
                        @ dquote @ ''properties'' @ dquote @ '' attributes'')))"

text \<open>The three query shapes; any direction other than the first two takes the last.\<close>

definition retrieve_query :: "model_cls \<Rightarrow> string \<Rightarrow> string" where
  "retrieve_query c direction =
     (let source_labels = str_join ''&'' (extract_labels c);
          source_match = build_match_clause c ''from_node_props''
      in if direction = ''INCOMING''
         then ''MATCH (b)-[r:$($rel_name)]->(a:'' @ source_labels @ '' '' @ source_match @ '')''
              @ '' RETURN r, b''
         else if direction = ''OUTGOING''
         then ''MATCH (a:'' @ source_labels @ '' '' @ source_match @ '')-[r:$($rel_name)]->(b)''
              @ '' RETURN r, b''
         else ''MATCH (a:'' @ source_labels @ '' '' @ source_match @ '')-[r:$($rel_name)]-(b)''
              @ '' RETURN r, b'')"

text \<open>Hydration: \<open>validate\<close> is pydantic's \<^verbatim>\<open>model_validate\<close>; an edge is the pair of
  the other node and the relationship's properties.\<close>

fun hydrate_rows ::
  "(model_cls \<Rightarrow> pyval \<Rightarrow> exc + model) \<Rightarrow> model_cls \<Rightarrow> model_cls \<Rightarrow> row list
     \<Rightarrow> (model \<times> model) list \<Rightarrow> exc + (model \<times> model) list" where
  "hydrate_rows validate target_cls prop_cls [] results = Inr results"
| "hydrate_rows validate target_cls prop_cls (rec # rows) results =
     (case map_of rec ''r'' of
        None \<Rightarrow> Inl (raise KeyError ''r'')
      | Some r \<Rightarrow>
          (case validate prop_cls r of
             Inl e \<Rightarrow> Inl e
           | Inr rel_instance \<Rightarrow>
               (case map_of rec ''b'' of
                  None \<Rightarrow> Inl (raise KeyError ''b'')
                | Some b \<Rightarrow>
                    (case validate target_cls b of
                       Inl e \<Rightarrow> Inl e
                     | Inr node_instance \<Rightarrow>
                         hydrate_rows validate target_cls prop_cls rows
                           (results @ [(node_instance, rel_instance)])))))"

definition retrieve_relationship_edges ::
  "(model_cls \<Rightarrow> pyval \<Rightarrow> exc + model) \<Rightarrow> session \<Rightarrow> model \<Rightarrow> string \<Rightarrow> string
     \<Rightarrow> edge_cls \<Rightarrow> state \<Rightarrow> (exc + (model \<times> model) list) \<times> state" where
  "retrieve_relationship_edges validate s m rel_name direction edge_type st =
     (case validate_edge_type edge_type of
        Inl e \<Rightarrow> (Inl e, st)
      | Inr (target_cls, prop_cls) \<Rightarrow>
          (case key_props m (extract_key_fields (model_type m)) [] of
             Inl e \<Rightarrow> (Inl e, st)
           | Inr from_node_props \<Rightarrow>
               (case instrumented_run s (retrieve_query (model_type m) direction)
                       [(''from_node_props'', VDict from_node_props),
                        (''rel_name'', VStr rel_name)] st of
                  (Inl e, st') \<Rightarrow> (Inl e, st')
                | (Inr rows, st') \<Rightarrow>
                    (hydrate_rows validate target_cls prop_cls rows [], st'))))"

section \<open>Unwrapping results\<close>

definition unwrap_node_as ::
  "(model_cls \<Rightarrow> pyval \<Rightarrow> exc + model) \<Rightarrow> model_cls \<Rightarrow> pyval \<Rightarrow> exc + model" where
  "unwrap_node_as validate c node =
     (if node = VNone then Inl (raise InvalidValueError ''No record to unwrap'')
      else validate c node)"

definition unwrap_result_as_node ::
  "(model_cls \<Rightarrow> pyval \<Rightarrow> exc + model) \<Rightarrow> model_cls \<Rightarrow> row list \<Rightarrow> exc + model" where
  "unwrap_result_as_node validate c rows =
     (case single rows of
        None \<Rightarrow> Inl (raise InvalidValueError ''Record is empty'')
      | Some [] \<Rightarrow> Inl (raise InvalidValueError ''Record is empty'')
      | Some [(_, node)] \<Rightarrow> unwrap_node_as validate c node
      | Some _ \<Rightarrow> Inl (raise InvalidValueError ''Too many nodes in record''))"

section \<open>Refreshing a relationship field\<close>

fun rel_data :: "metadata list \<Rightarrow> (string \<times> string) list" where
  "rel_data [] = []"
| "rel_data (Relationship rel_type direction # mds) = (rel_type, direction) # rel_data mds"
| "rel_data (md # mds) = rel_data mds"

text \<open>The checks of \<^verbatim>\<open>refresh_relationship\<close> before it retrieves: the relationship's
  name, its direction and the edge type of the field.\<close>

definition refresh_relationship_field ::
  "model_cls \<Rightarrow> string \<Rightarrow> exc + string \<times> string \<times> edge_cls" where
  "refresh_relationship_field c rel_property =
     (case map_of (model_fields c) rel_property of
        None \<Rightarrow>
          Inl (raise InvalidValueError (''Relation '' @ rel_property @ '' does not exist''))
      | Some field \<Rightarrow>
          (case anno_origin field of
             None \<Rightarrow>
               Inl (raise InvalidRelationshipError
                      (''Missing or incorrect generic type for '' @ rel_property))
           | Some NotAClass \<Rightarrow>
               Inl (raise TypeError ''issubclass() arg 1 must be a class'')
           | Some NonSequenceClass \<Rightarrow>
               Inl (raise InvalidRelationshipError
                      (''Relation '' @ rel_property @ '' is not a sequence''))
           | Some SequenceClass \<Rightarrow>
               (case rel_data (field_metadata field) of
                  [(rel_type, direction)] \<Rightarrow>
                    (case anno_args field of
                       [] \<Rightarrow> Inl (raise IndexError ''tuple index out of range'')
                     | edge_type # _ \<Rightarrow> Inr (rel_type, direction, edge_type))
                | _ \<Rightarrow>
                    Inl (raise InvalidRelationshipError
                           (''Missing or incorrect Relationship for '' @ rel_property)))))"

text \<open>\<^verbatim>\<open>setattr(model, rel_property, results)\<close> is returned as the binding it makes.\<close>

definition refresh_relationship ::
  "(model_cls \<Rightarrow> pyval \<Rightarrow> exc + model) \<Rightarrow> session \<Rightarrow> model \<Rightarrow> string \<Rightarrow> state
     \<Rightarrow> (exc + string \<times> (model \<times> model) list) \<times> state" where
  "refresh_relationship validate s m rel_property st =
     (case refresh_relationship_field (model_type m) rel_property of
        Inl e \<Rightarrow> (Inl e, st)
      | Inr (rel_type, direction, edge_type) \<Rightarrow>
          (case retrieve_relationship_edges validate s m rel_type direction edge_type st of
             (Inl e, st') \<Rightarrow> (Inl e, st')
           | (Inr results, st') \<Rightarrow> (Inr (rel_property, results), st')))"

section \<open>Counting the constraint statements of a run of calls\<close>

definition is_constraint_statement :: "call \<Rightarrow> bool" where
  "is_constraint_statement c = (take 17 (fst c) = ''CREATE CONSTRAINT'')"

definition constraint_statements :: "state \<Rightarrow> call list" where
  "constraint_statements st = filter is_constraint_statement (run_calls st)"

text \<open>A caller that makes the calls one after the other, whatever each returns.\<close>

fun create_nodes :: "(session \<times> model) list \<Rightarrow> state \<Rightarrow> state" where
  "create_nodes [] st = st"
| "create_nodes ((s, m) # calls) st = create_nodes calls (snd (create_node s m st))"

section \<open>Validation errors\<close>

definition is_validation_error :: "exc \<Rightarrow> bool" where
  "is_validation_error e = (isinstance e CypheranticError \<and> isinstance e ValueError)"

section \<open>Example classes, instances and sessions\<close>

definition person_cls :: model_cls where
  "person_cls = ModelCls 1 ''Person'' None [(''name'', FieldInfo None [] [Field_md True])]"

definition alice :: model where
  "alice = \<lparr>model_type = person_cls, attrs = [(''name'', VStr ''Alice'')],
             model_dump = [(''name'', VStr ''Alice'')]\<rparr>"

definition bob :: model where
  "bob = \<lparr>model_type = person_cls, attrs = [(''name'', VStr ''Bob'')],
           model_dump = [(''name'', VStr ''Bob'')]\<rparr>"

definition document_cls :: model_cls where
  "document_cls = ModelCls 2 ''Document'' None
     [(''doc_id'', FieldInfo None [] [Field_md True]),
      (''version'', FieldInfo None [] [Field_md True]),
      (''content'', FieldInfo None [] [])]"

text \<open>A class whose declared label list is empty.\<close>

definition ghost_cls :: model_cls where
  "ghost_cls = ModelCls 3 ''Ghost'' (Some \<lparr>cfg_labels = Some [], cfg_rel_type = None\<rparr>)
     [(''name'', FieldInfo None [] [Field_md True])]"

definition ghost :: model where
  "ghost = \<lparr>model_type = ghost_cls, attrs = [(''name'', VStr ''Casper'')],
             model_dump = [(''name'', VStr ''Casper'')]\<rparr>"

definition employment_cls :: model_cls where
  "employment_cls = ModelCls 4 ''Employment''
     (Some \<lparr>cfg_labels = None, cfg_rel_type = Some ''EMPLOYED_BY''\<rparr>)
     [(''role'', FieldInfo None [] [])]"

definition employment :: model where
  "employment = \<lparr>model_type = employment_cls, attrs = [(''role'', VStr ''Engineer'')],
                  model_dump = [(''role'', VStr ''Engineer'')]\<rparr>"

definition friendship_cls :: model_cls where
  "friendship_cls = ModelCls 5 ''Friendship'' None [(''since'', FieldInfo None [] [])]"

definition friendship :: model where
  "friendship = \<lparr>model_type = friendship_cls, attrs = [(''since'', VInt 2020)],
                  model_dump = [(''since'', VInt 2020)]\<rparr>"

text \<open>A class with two relationship fields: one whose edge type declares neither \<open>node\<close>
  nor \<open>properties\<close>, one whose annotation has no generic type.\<close>

definition club_cls :: model_cls where
  "club_cls = ModelCls 6 ''Club'' None
     [(''name'', FieldInfo None [] []),
      (''members'', FieldInfo (Some SequenceClass) [EdgeCls [] []]
                      [Relationship ''MEMBER_OF'' ''INCOMING'']),
      (''founder'', FieldInfo None [] [Relationship ''FOUNDED'' ''INCOMING''])]"

definition club :: model where
  "club = \<lparr>model_type = club_cls, attrs = [(''name'', VStr ''Chess'')],
            model_dump = [(''name'', VStr ''Chess'')]\<rparr>"

definition friend_edge :: edge_cls where
  "friend_edge = EdgeCls [(''node'', ModelHint person_cls), (''properties'', ModelHint friendship_cls)]
                         [''node'', ''properties'']"

text \<open>Sessions: one that answers every statement with no row, one that answers with one
  row of one column, one whose \<^verbatim>\<open>run\<close> raises, and a transaction.\<close>

definition silent_session :: session where
  "silent_session = \<lparr>is_transaction = False, run = (\<lambda>h c. Inr [])\<rparr>"

definition node_session :: session where
  "node_session = \<lparr>is_transaction = False, run = (\<lambda>h c. Inr [[(''n'', VObject ''Node'')]])\<rparr>"

definition failing_session :: session where
  "failing_session =
     \<lparr>is_transaction = False, run = (\<lambda>h c. Inl (raise DriverError ''unavailable''))\<rparr>"

definition transaction_session :: session where
  "transaction_session =
     \<lparr>is_transaction = True, run = (\<lambda>h c. Inr [[(''n'', VObject ''Node'')]])\<rparr>"

text \<open>A \<^verbatim>\<open>model_validate\<close> that takes the properties of a dictionary as they are.\<close>

definition plain_validate :: "model_cls \<Rightarrow> pyval \<Rightarrow> exc + model" where
  "plain_validate c v =
     (case v of
        VDict kvs \<Rightarrow> Inr \<lparr>model_type = c, attrs = kvs, model_dump = kvs\<rparr>
      | _ \<Rightarrow> Inl (raise ValueError ''validation error''))"

definition init_state :: state where
  "init_state = \<lparr>known_constraints = {}, run_calls = []\<rparr>"

section \<open>Evaluation rules and helper lemmas\<close>

lemmas issubclass_eval =
  issubclass.simps [of Exception] issubclass.simps [of ValueError]
  issubclass.simps [of TypeError] issubclass.simps [of KeyError]
  issubclass.simps [of IndexError] issubclass.simps [of AttributeError]
  issubclass.simps [of CypheranticError] issubclass.simps [of InvalidValueError]
  issubclass.simps [of InvalidRelationshipError] issubclass.simps [of DriverError]

lemmas engine_defs =
  create_node_def create_node_labels_def create_node_query_def ensure_constraints_def
  constraint_query_def instrumented_run_def single_def getattr_config_def empty_config_def
  extract_labels_def extract_key_fields_def build_match_clause_def

lemmas example_defs =
  person_cls_def alice_def bob_def document_cls_def ghost_cls_def ghost_def
  employment_cls_def employment_def friendship_cls_def friendship_def friend_edge_def
  club_cls_def club_def
  silent_session_def node_session_def failing_session_def transaction_session_def
  init_state_def

lemma dict_set_fresh: "k \<notin> fst ` set d \<Longrightarrow> dict_set d k v = d @ [(k, v)]"
  by (induction d) auto

lemma match_props_distinct:
  "distinct ks \<Longrightarrow> set ks \<inter> fst ` set d = {} \<Longrightarrow>
   match_props alias ks d = d @ map (\<lambda>f. (f, ''$'' @ alias @ ''.'' @ f)) ks"
proof (induction ks arbitrary: d)
  case Nil
  then show ?case by simp
next
  case (Cons k ks)
  have fresh: "k \<notin> fst ` set d"
    using Cons.prems by auto
  have "set ks \<inter> fst ` set (d @ [(k, ''$'' @ alias @ ''.'' @ k)]) = {}"
    using Cons.prems by auto
  with Cons show ?case
    by (simp add: dict_set_fresh [OF fresh])
qed

lemma ensure_constraints_calls:
  "ensure_constraints s c ls st = (r, st1) \<Longrightarrow>
   run_calls st1 = run_calls st \<or> (\<exists>q. run_calls st1 = run_calls st @ [(q, [])])"
  by (auto simp: ensure_constraints_def instrumented_run_def Let_def
           split: if_splits list.splits sum.splits prod.splits)

lemmas relationship_defs =
  create_relationship_def create_relationship_query_def retrieve_relationship_edges_def
  retrieve_query_def validate_edge_type_def

lemma ensure_constraints_skip:
  "is_transaction s \<or> ls = [] \<or> cls_id c \<in> known_constraints st \<Longrightarrow>
   ensure_constraints s c ls st = (Inr (), st)"
  by (auto simp: ensure_constraints_def split: list.splits)

lemma ensure_constraints_raises:
  assumes "\<not> is_transaction s" "cls_id c \<notin> known_constraints st"
    and "extract_key_fields c \<noteq> []"
    and "run s (run_calls st) (constraint_query c l (extract_key_fields c), []) = Inl e"
  shows "ensure_constraints s c (l # ls) st =
           (Inl e, st\<lparr>run_calls := run_calls st @ [(constraint_query c l (extract_key_fields c), [])]\<rparr>)"
  using assms by (simp add: ensure_constraints_def extract_key_fields_def instrumented_run_def)

lemma ensure_constraints_issues:
  assumes "\<not> is_transaction s" "cls_id c \<notin> known_constraints st"
    and "extract_key_fields c \<noteq> []"
    and "run s (run_calls st) (constraint_query c l (extract_key_fields c), []) = Inr rows"
  shows "ensure_constraints s c (l # ls) st =
           (Inr (), st\<lparr>run_calls := run_calls st @ [(constraint_query c l (extract_key_fields c), [])],
                        known_constraints := insert (cls_id c) (known_constraints st)\<rparr>)"
  using assms by (simp add: ensure_constraints_def extract_key_fields_def instrumented_run_def)

lemma is_constraint_statement_constraint [simp]:
  "is_constraint_statement (constraint_query c l ks, ps)"
  by (simp add: is_constraint_statement_def constraint_query_def)

lemma is_constraint_statement_create [simp]:
  "\<not> is_constraint_statement (create_node_query ls, ps)"
  by (simp add: is_constraint_statement_def create_node_query_def)

lemma create_node_after_ensure:
  assumes "(if cls_id (model_type m) \<notin> known_constraints st
            then ensure_constraints s (model_type m) (create_node_labels m) st
            else (Inr (), st)) = (Inr (), st1)"
  shows "known_constraints (snd (create_node s m st)) = known_constraints st1
       \<and> (run_calls (snd (create_node s m st)) = run_calls st1
          \<or> (\<exists>ps. run_calls (snd (create_node s m st)) =
                 run_calls st1 @ [(create_node_query (create_node_labels m), ps)]))"
  unfolding create_node_def Let_def assms
  by (auto simp: instrumented_run_def split: sum.splits prod.splits option.splits list.splits)

lemma create_node_ensure_raises:
  assumes "(if cls_id (model_type m) \<notin> known_constraints st
            then ensure_constraints s (model_type m) (create_node_labels m) st
            else (Inr (), st)) = (Inl e, st1)"
  shows "create_node s m st = (Inl e, st1)"
  unfolding create_node_def Let_def assms by simp

lemma create_node_cached:
  assumes "cls_id (model_type m) \<in> known_constraints st"
  shows "known_constraints (snd (create_node s m st)) = known_constraints st
       \<and> constraint_statements (snd (create_node s m st)) = constraint_statements st"
  using create_node_after_ensure [of m st s st] assms
  by (auto simp: constraint_statements_def)

lemma create_node_skipped:
  assumes "is_transaction s \<or> create_node_labels m = []"
  shows "known_constraints (snd (create_node s m st)) = known_constraints st
       \<and> constraint_statements (snd (create_node s m st)) = constraint_statements st"
proof -
  have "(if cls_id (model_type m) \<notin> known_constraints st
            then ensure_constraints s (model_type m) (create_node_labels m) st
            else (Inr (), st)) = (Inr (), st)"
    using assms by (simp add: ensure_constraints_skip)
  from create_node_after_ensure [OF this] show ?thesis
    by (auto simp: constraint_statements_def)
qed

lemma create_node_emits:
  assumes "\<not> is_transaction s" "cls_id (model_type m) \<notin> known_constraints st"
    and "extract_key_fields (model_type m) \<noteq> []"
    and "create_node_labels m = l # ls"
  shows "\<exists>rest. run_calls (snd (create_node s m st)) =
           run_calls st @ (constraint_query (model_type m) l (extract_key_fields (model_type m)), []) # rest"
proof (cases "run s (run_calls st) (constraint_query (model_type m) l (extract_key_fields (model_type m)), [])")
  case (Inl e)
  from ensure_constraints_raises [OF assms(1,2,3) Inl, of ls] assms(2,4)
  have "create_node s m st = (Inl e, st\<lparr>run_calls := run_calls st @
            [(constraint_query (model_type m) l (extract_key_fields (model_type m)), [])]\<rparr>)"
    by (intro create_node_ensure_raises) simp
  then show ?thesis by simp
next
  case (Inr rows)
  from ensure_constraints_issues [OF assms(1,2,3) Inr, of ls] assms(2,4)
  have "(if cls_id (model_type m) \<notin> known_constraints st
            then ensure_constraints s (model_type m) (create_node_labels m) st
            else (Inr (), st)) = (Inr (), st\<lparr>run_calls := run_calls st @ [(constraint_query (model_type m) l (extract_key_fields (model_type m)), [])],
                        known_constraints := insert (cls_id (model_type m)) (known_constraints st)\<rparr>)"
    by simp
  from create_node_after_ensure [OF this] show ?thesis by auto
qed

lemma create_node_labels_extract: "create_node_labels m = extract_labels (model_type m)"
  by (simp add: create_node_labels_def extract_labels_def)

lemma create_node_labels_cong:
  "model_type m2 = model_type m \<Longrightarrow> create_node_labels m2 = create_node_labels m"
  by (simp add: create_node_labels_extract)

lemma create_nodes_cached:
  assumes "\<forall>(s, m) \<in> set calls. cls_id (model_type m) = k"
    and "k \<in> known_constraints st"
  shows "constraint_statements (create_nodes calls st) = constraint_statements st"
  using assms
proof (induction calls arbitrary: st)
  case Nil
  then show ?case by simp
next
  case (Cons call calls)
  obtain s m where call: "call = (s, m)"
    by (cases call)
  have k: "cls_id (model_type m) = k"
    using Cons.prems(1) call by simp
  have cached: "cls_id (model_type m) \<in> known_constraints st"
    using k Cons.prems(2) by simp
  have "k \<in> known_constraints (snd (create_node s m st))"
    using create_node_cached [OF cached, of s] Cons.prems(2) by simp
  moreover have "\<forall>(s, m) \<in> set calls. cls_id (model_type m) = k"
    using Cons.prems(1) by simp
  ultimately have "constraint_statements (create_nodes calls (snd (create_node s m st)))
                   = constraint_statements (snd (create_node s m st))"
    by (rule Cons.IH [rotated])
  then show ?case
    using create_node_cached [OF cached, of s] call by simp
qed

lemma create_node_first:
  assumes "\<not> is_transaction s" "cls_id (model_type m) \<notin> known_constraints st"
    and "extract_key_fields (model_type m) \<noteq> []"
    and "create_node_labels m = l # ls"
    and "run s (run_calls st)
           (constraint_query (model_type m) l (extract_key_fields (model_type m)), []) = Inr rows"
  shows "cls_id (model_type m) \<in> known_constraints (snd (create_node s m st))
       \<and> constraint_statements (snd (create_node s m st)) =
           constraint_statements st
             @ [(constraint_query (model_type m) l (extract_key_fields (model_type m)), [])]"
proof -
  from ensure_constraints_issues [OF assms(1,2,3,5), of ls] assms(2,4)
  have "(if cls_id (model_type m) \<notin> known_constraints st
         then ensure_constraints s (model_type m) (create_node_labels m) st
         else (Inr (), st)) =
        (Inr (), st\<lparr>run_calls := run_calls st @
                      [(constraint_query (model_type m) l (extract_key_fields (model_type m)), [])],
                    known_constraints := insert (cls_id (model_type m)) (known_constraints st)\<rparr>)"
    by simp
  from create_node_after_ensure [OF this] show ?thesis
    by (auto simp: constraint_statements_def)
qed

lemma run_single_calls:
  "run_calls (snd (case instrumented_run s q ps st of
                     (Inl e, st') \<Rightarrow> (Inl e, st')
                   | (Inr rows, st') \<Rightarrow>
                       (case single rows of
                          None \<Rightarrow> (Inl x, st')
                        | Some [] \<Rightarrow> (Inr VNone, st')
                        | Some ((_, v) # _) \<Rightarrow> (Inr v, st')))) =
   run_calls (snd (instrumented_run s q ps st))"
  by (auto split: prod.splits sum.splits option.splits list.splits)

section \<open>The query builder\<close>

text \<open>
  Claim C3, as stated: the match clause of key fields \<open>[f1, f2, ...]\<close> is
  \<open>{f1: $alias.f1, f2: $alias.f2, ...}\<close>, and \<open>{k: $alias.k}\<close> for the one key \<open>k\<close>.
  The code writes no blank after the colon or the comma: for the key \<open>k\<close> it returns
  \<open>{k:$alias.k}\<close>, which is not the string of the claim.
\<close>

theorem build_match_clause_spacing_counterexample:
  "extract_key_fields person_cls = [''name'']
   \<and> build_match_clause person_cls ''alias'' = ''{name:$alias.name}''
   \<and> build_match_clause person_cls ''alias'' \<noteq> ''{name: $alias.name}''"
  by (simp add: person_cls_def build_match_clause_def extract_key_fields_def)

text \<open>
  Claim C3, amended: the match clause is the empty string when the class has no key field;
  for distinct key fields \<open>[f1, f2, ...]\<close> it is \<open>{f1:$alias.f1,f2:$alias.f2,...}\<close>, in
  declaration order and without blanks; for the one key \<open>k\<close> it is \<open>{k:$alias.k}\<close>.
\<close>

theorem build_match_clause_fragment:
  "(extract_key_fields c = [] \<longrightarrow> build_match_clause c alias = '''')
   \<and> (extract_key_fields c \<noteq> [] \<longrightarrow> distinct (extract_key_fields c) \<longrightarrow>
        build_match_clause c alias =
          ''{'' @ str_join '','' (map (\<lambda>f. f @ '':$'' @ alias @ ''.'' @ f) (extract_key_fields c))
          @ ''}'')
   \<and> (extract_key_fields c = [k] \<longrightarrow>
        build_match_clause c alias = ''{'' @ k @ '':$'' @ alias @ ''.'' @ k @ ''}'')"
  by (auto simp: build_match_clause_def match_props_distinct Let_def comp_def)

theorem build_match_clause_fragment_witness:
  "extract_key_fields document_cls \<noteq> [] \<and> distinct (extract_key_fields document_cls)
   \<and> build_match_clause document_cls ''from_node_props'' =
       ''{doc_id:$from_node_props.doc_id,version:$from_node_props.version}''"
  using build_match_clause_fragment [of document_cls "''from_node_props''"]
  by (simp add: document_cls_def extract_key_fields_def)

section \<open>Labels\<close>

text \<open>
  Claim C8, as stated: the label list that the extraction returns is never empty. A class
  that declares the empty list gets the empty list.
\<close>

theorem extract_labels_empty_counterexample:
  "cfg_labels (getattr_config ghost_cls) = Some [] \<and> extract_labels ghost_cls = []"
  by (simp add: ghost_cls_def extract_labels_def getattr_config_def)

text \<open>
  Claim C8, amended: the label extraction returns the declared label list when one is
  declared and the one-element list of the class name otherwise; \<^verbatim>\<open>create_node\<close> computes
  the same list; the list is non-empty unless the declared list is itself empty.
\<close>

theorem extract_labels_declared_or_default:
  "extract_labels c =
     (case cypherantic_config c of
        None \<Rightarrow> [cls_name c]
      | Some cfg \<Rightarrow> (case cfg_labels cfg of None \<Rightarrow> [cls_name c] | Some ls \<Rightarrow> ls))
   \<and> create_node_labels m = extract_labels (model_type m)
   \<and> (cfg_labels (getattr_config c) \<noteq> Some [] \<longrightarrow> extract_labels c \<noteq> [])"
  by (auto simp: extract_labels_def create_node_labels_def getattr_config_def empty_config_def
           split: option.splits)

theorem extract_labels_declared_or_default_witness:
  "cfg_labels (getattr_config person_cls) \<noteq> Some [] \<and> extract_labels person_cls = [''Person'']
   \<and> create_node_labels alice = [''Person'']"
  using extract_labels_declared_or_default [of person_cls alice]
  by (simp add: person_cls_def alice_def getattr_config_def empty_config_def)

section \<open>Errors\<close>

text \<open>
  Claim C10, as stated: every error that the engine itself raises for an absent record or
  a malformed relationship annotation is an instance of both the engine's base error and
  ValueError. The error that \<^verbatim>\<open>create_relationship\<close> raises when the session answers with
  no row is the engine's base error and no ValueError, and the error that
  \<^verbatim>\<open>refresh_relationship\<close> raises, through \<^verbatim>\<open>_validate_edge_type\<close>, for a field whose edge
  type has no \<open>node\<close> and \<open>properties\<close> is a TypeError: neither a ValueError nor an
  error of the engine's base class.
\<close>

theorem engine_errors_outside_value_error_counterexample:
  "fst (create_relationship silent_session alice bob None (Some ''KNOWS'') init_state)
     = Inl (raise CypheranticError ''Failed to create relationship'')
   \<and> \<not> isinstance (raise CypheranticError ''Failed to create relationship'') ValueError
   \<and> exc_cls (projl (fst (refresh_relationship plain_validate silent_session club ''members''
                            init_state))) = TypeError
   \<and> isl (fst (refresh_relationship plain_validate silent_session club ''members'' init_state))
   \<and> \<not> issubclass TypeError ValueError \<and> \<not> issubclass TypeError CypheranticError"
  by (simp add: relationship_defs refresh_relationship_def refresh_relationship_field_def
        engine_defs example_defs isinstance_def raise_def issubclass_eval)

text \<open>
  Claim C10, amended: InvalidValueError and InvalidRelationshipError each derive from both
  the engine's base error and ValueError, and the errors that the engine raises in
  \<^verbatim>\<open>unwrap_node_as\<close> and \<^verbatim>\<open>unwrap_result_as_node\<close> (an absent, empty or ambiguous record) and
  in the checks of \<^verbatim>\<open>refresh_relationship\<close> (a missing field, a missing generic type, a field
  that is no sequence, not exactly one Relationship annotation) are of these two classes,
  so that a caller catching ValueError catches them; \<^verbatim>\<open>refresh_relationship\<close> raises them
  with no call on the session. The base error CypheranticError, which \<^verbatim>\<open>create_node\<close> and
  \<^verbatim>\<open>create_relationship\<close> raise for an absent row, and the TypeError of the edge-type
  validation are no ValueErrors.
\<close>

theorem validation_errors_are_value_errors:
  "issubclass InvalidValueError CypheranticError \<and> issubclass InvalidValueError ValueError
   \<and> issubclass InvalidRelationshipError CypheranticError
   \<and> issubclass InvalidRelationshipError ValueError
   \<and> \<not> issubclass CypheranticError ValueError \<and> \<not> issubclass TypeError ValueError
   \<and> is_validation_error (raise InvalidValueError msg)
   \<and> is_validation_error (raise InvalidRelationshipError msg)
   \<and> unwrap_node_as validate c VNone = Inl (raise InvalidValueError ''No record to unwrap'')
   \<and> (rows = [] \<or> hd rows = [] \<longrightarrow>
        unwrap_result_as_node validate c rows = Inl (raise InvalidValueError ''Record is empty''))
   \<and> (rows \<noteq> [] \<and> 1 < length (hd rows) \<longrightarrow>
        unwrap_result_as_node validate c rows
          = Inl (raise InvalidValueError ''Too many nodes in record''))
   \<and> (map_of (model_fields (model_type m)) rel_property = None \<longrightarrow>
        refresh_relationship validate s m rel_property st
          = (Inl (raise InvalidValueError (''Relation '' @ rel_property @ '' does not exist'')),
             st))
   \<and> (\<forall>field. map_of (model_fields (model_type m)) rel_property = Some field
          \<and> anno_origin field = None \<longrightarrow>
        refresh_relationship validate s m rel_property st
          = (Inl (raise InvalidRelationshipError
                    (''Missing or incorrect generic type for '' @ rel_property)), st))
   \<and> (\<forall>field. map_of (model_fields (model_type m)) rel_property = Some field
          \<and> anno_origin field = Some NonSequenceClass \<longrightarrow>
        refresh_relationship validate s m rel_property st
          = (Inl (raise InvalidRelationshipError
                    (''Relation '' @ rel_property @ '' is not a sequence'')), st))
   \<and> (\<forall>field. map_of (model_fields (model_type m)) rel_property = Some field
          \<and> anno_origin field = Some SequenceClass
          \<and> length (rel_data (field_metadata field)) \<noteq> 1 \<longrightarrow>
        refresh_relationship validate s m rel_property st
          = (Inl (raise InvalidRelationshipError
                    (''Missing or incorrect Relationship for '' @ rel_property)), st))"
proof -
  have classes: "is_validation_error (raise InvalidValueError msg)"
    "is_validation_error (raise InvalidRelationshipError msg)"
    by (simp_all add: is_validation_error_def isinstance_def raise_def issubclass_eval)
  have node: "unwrap_node_as validate c VNone = Inl (raise InvalidValueError ''No record to unwrap'')"
    by (simp add: unwrap_node_as_def)
  have empty: "unwrap_result_as_node validate c rows = Inl (raise InvalidValueError ''Record is empty'')"
    if "rows = [] \<or> hd rows = []"
    using that by (cases rows) (auto simp: unwrap_result_as_node_def single_def)
  have many: "unwrap_result_as_node validate c rows
                = Inl (raise InvalidValueError ''Too many nodes in record'')"
    if "rows \<noteq> [] \<and> 1 < length (hd rows)"
    using that
    by (cases rows) (auto simp: unwrap_result_as_node_def single_def split: list.splits)
  have missing: "refresh_relationship validate s m rel_property st
          = (Inl (raise InvalidValueError (''Relation '' @ rel_property @ '' does not exist'')), st)"
    if "map_of (model_fields (model_type m)) rel_property = None"
    using that by (simp add: refresh_relationship_def refresh_relationship_field_def)
  have generic: "refresh_relationship validate s m rel_property st
          = (Inl (raise InvalidRelationshipError
                    (''Missing or incorrect generic type for '' @ rel_property)), st)"
    if "map_of (model_fields (model_type m)) rel_property = Some field" "anno_origin field = None"
    for field
    using that by (simp add: refresh_relationship_def refresh_relationship_field_def)
  have sequence: "refresh_relationship validate s m rel_property st
          = (Inl (raise InvalidRelationshipError
                    (''Relation '' @ rel_property @ '' is not a sequence'')), st)"
    if "map_of (model_fields (model_type m)) rel_property = Some field"
      "anno_origin field = Some NonSequenceClass"
    for field
    using that by (simp add: refresh_relationship_def refresh_relationship_field_def)
  have annotation: "refresh_relationship validate s m rel_property st
          = (Inl (raise InvalidRelationshipError
                    (''Missing or incorrect Relationship for '' @ rel_property)), st)"
    if "map_of (model_fields (model_type m)) rel_property = Some field"
      "anno_origin field = Some SequenceClass" "length (rel_data (field_metadata field)) \<noteq> 1"
    for field
    using that
    by (auto simp: refresh_relationship_def refresh_relationship_field_def split: list.splits)
  show ?thesis
    using classes node empty many missing generic sequence annotation
    by (simp add: issubclass_eval)
qed

theorem validation_errors_are_value_errors_witness:
  "map_of (model_fields (model_type alice)) ''nonexistent'' = None
   \<and> refresh_relationship plain_validate silent_session alice ''nonexistent'' init_state
       = (Inl (raise InvalidValueError ''Relation nonexistent does not exist''), init_state)
   \<and> map_of (model_fields (model_type club)) ''founder''
       = Some (FieldInfo None [] [Relationship ''FOUNDED'' ''INCOMING''])
   \<and> refresh_relationship plain_validate silent_session club ''founder'' init_state
       = (Inl (raise InvalidRelationshipError ''Missing or incorrect generic type for founder''),
          init_state)
   \<and> unwrap_result_as_node plain_validate person_cls []
       = Inl (raise InvalidValueError ''Record is empty'')
   \<and> unwrap_result_as_node plain_validate person_cls [[(''a'', VNone), (''b'', VNone)]]
       = Inl (raise InvalidValueError ''Too many nodes in record'')
   \<and> is_validation_error (raise InvalidValueError ''Relation nonexistent does not exist'')
   \<and> is_validation_error
        (raise InvalidRelationshipError ''Missing or incorrect generic type for founder'')
   \<and> is_validation_error (raise InvalidValueError ''Record is empty'')
   \<and> is_validation_error (raise InvalidValueError ''Too many nodes in record'')"
proof -
  have missing: "map_of (model_fields (model_type alice)) ''nonexistent'' = None"
    by (simp add: example_defs)
  have founder: "map_of (model_fields (model_type club)) ''founder''
       = Some (FieldInfo None [] [Relationship ''FOUNDED'' ''INCOMING''])"
    "anno_origin (FieldInfo None [] [Relationship ''FOUNDED'' ''INCOMING'']) = None"
    by (simp_all add: example_defs)
  note a = validation_errors_are_value_errors
             [of "''Relation nonexistent does not exist''" plain_validate person_cls "[]"
                 alice "''nonexistent''" silent_session init_state]
  note b = validation_errors_are_value_errors
             [of "''Missing or incorrect generic type for founder''" plain_validate person_cls
                 "[[(''a'', VNone), (''b'', VNone)]]" club "''founder''" silent_session init_state]
  note c = validation_errors_are_value_errors [of "''Record is empty''"]
  note d = validation_errors_are_value_errors [of "''Too many nodes in record''"]
  have b': "refresh_relationship plain_validate silent_session club ''founder'' init_state
       = (Inl (raise InvalidRelationshipError ''Missing or incorrect generic type for founder''),
          init_state)"
    using b founder by auto
  show ?thesis
    using a b b' c d missing founder(1) by simp
qed

text \<open>
  Claim C5, as stated: when the creation statement returns no row, \<^verbatim>\<open>create_node\<close> fails
  with a ValueError-kind error. The error it raises is the engine's base error, which is
  no ValueError.
\<close>

theorem create_node_no_row_not_value_error:
  "fst (create_node silent_session alice init_state)
     = Inl (raise CypheranticError ''Failed to create node'')
   \<and> \<not> isinstance (raise CypheranticError ''Failed to create node'') ValueError"
  by (simp add: engine_defs example_defs isinstance_def raise_def issubclass_eval)

text \<open>
  Claim C5, amended: when \<^verbatim>\<open>create_node\<close> executes its creation statement (the last call
  it makes on the session) and the session answers with no row, \<^verbatim>\<open>create_node\<close> fails with
  the engine's base error CypheranticError, "Failed to create node", which is not a
  ValueError.
\<close>

theorem create_node_no_row_error:
  assumes res: "create_node s m st = (res, st')"
    and calls: "run_calls st' =
                  before @ [(create_node_query (create_node_labels m),
                             [(''properties'', VDict properties)])]"
    and new: "length (run_calls st) \<le> length before"
    and norow: "run s before (create_node_query (create_node_labels m),
                              [(''properties'', VDict properties)]) = Inr []"
  shows "res = Inl (raise CypheranticError ''Failed to create node'')
         \<and> isinstance (raise CypheranticError ''Failed to create node'') CypheranticError
         \<and> \<not> isinstance (raise CypheranticError ''Failed to create node'') ValueError"
proof -
  obtain ens st1 where ens:
    "(if cls_id (model_type m) \<notin> known_constraints st
      then ensure_constraints s (model_type m) (create_node_labels m) st
      else (Inr (), st)) = (ens, st1)"
    by (cases "(if cls_id (model_type m) \<notin> known_constraints st
                then ensure_constraints s (model_type m) (create_node_labels m) st
                else (Inr (), st))")
  have st1: "run_calls st1 = run_calls st \<or> (\<exists>q. run_calls st1 = run_calls st @ [(q, [])])"
    using ens ensure_constraints_calls by (auto split: if_splits)
  have len: "length (run_calls st') = Suc (length before)"
    and lst: "last (run_calls st') =
                (create_node_query (create_node_labels m), [(''properties'', VDict properties)])"
    and but: "butlast (run_calls st') = before"
    using calls by simp_all
  have "res = Inl (raise CypheranticError ''Failed to create node'')"
    using res len lst but new norow st1 unfolding create_node_def Let_def ens
    by (auto simp: instrumented_run_def single_def butlast_append
             split: sum.splits if_splits prod.splits option.splits list.splits)
  then show ?thesis
    by (simp add: isinstance_def raise_def issubclass_eval)
qed

theorem create_node_no_row_error_witness:
  "create_node silent_session alice init_state =
     (Inl (raise CypheranticError ''Failed to create node''),
      \<lparr>known_constraints = {1},
       run_calls =
         [(''CREATE CONSTRAINT Person_unique IF NOT EXISTS FOR (n:Person) REQUIRE (n.name) IS UNIQUE'',
           []),
          (''CREATE (n:Person $properties) RETURN n'',
           [(''properties'', VDict [(''name'', VStr ''Alice'')])])]\<rparr>)
   \<and> isinstance (raise CypheranticError ''Failed to create node'') CypheranticError
   \<and> \<not> isinstance (raise CypheranticError ''Failed to create node'') ValueError"
proof -
  have run: "create_node silent_session alice init_state =
     (Inl (raise CypheranticError ''Failed to create node''),
      \<lparr>known_constraints = {1},
       run_calls =
         [(''CREATE CONSTRAINT Person_unique IF NOT EXISTS FOR (n:Person) REQUIRE (n.name) IS UNIQUE'',
           []),
          (''CREATE (n:Person $properties) RETURN n'',
           [(''properties'', VDict [(''name'', VStr ''Alice'')])])]\<rparr>)"
    by (simp add: engine_defs example_defs)
  have labels: "create_node_query (create_node_labels alice) = ''CREATE (n:Person $properties) RETURN n''"
    by (simp add: engine_defs example_defs)
  show ?thesis
    using create_node_no_row_error
            [OF run, of "[(''CREATE CONSTRAINT Person_unique IF NOT EXISTS FOR (n:Person) REQUIRE (n.name) IS UNIQUE'', [])]"
                        "[(''name'', VStr ''Alice'')]"]
          run labels
    by (simp add: silent_session_def init_state_def)
qed

text \<open>
  Claim C6: \<^verbatim>\<open>create_relationship\<close> with neither a relationship type nor a properties
  instance raises the engine's "either must be provided" error and leaves the state as it
  was: no call reaches the session's \<^verbatim>\<open>run\<close>.
\<close>

theorem create_relationship_requires_name:
  "create_relationship s from_node to_node None None st =
     (Inl (raise CypheranticError ''Either rel_cls or rel_type must be provided''), st)"
  unfolding create_relationship_def by (simp only: option.case sum.case)

section \<open>Constraints are issued once\<close>

text \<open>
  Claim C4, as stated: after the session's \<^verbatim>\<open>run\<close> has raised on the constraint statement, a
  subsequent \<^verbatim>\<open>create_node\<close> for the same class attempts the constraint again. When the
  subsequent call is made on a transaction it returns at the transaction guard of
  \<^verbatim>\<open>_ensure_constraints\<close> and issues the creation statement only.
\<close>

theorem constraint_retry_in_transaction_counterexample:
  "create_node failing_session alice init_state =
     (Inl (raise DriverError ''unavailable''),
      \<lparr>known_constraints = {},
       run_calls = [(''CREATE CONSTRAINT Person_unique IF NOT EXISTS FOR (n:Person) REQUIRE (n.name) IS UNIQUE'', [])]\<rparr>)
   \<and> model_type bob = model_type alice \<and> is_transaction transaction_session
   \<and> run_calls (snd (create_node transaction_session bob
                        (snd (create_node failing_session alice init_state)))) =
       [(''CREATE CONSTRAINT Person_unique IF NOT EXISTS FOR (n:Person) REQUIRE (n.name) IS UNIQUE'', []),
        (''CREATE (n:Person $properties) RETURN n'',
         [(''properties'', VDict [(''name'', VStr ''Bob'')])])]"
  by (simp add: engine_defs example_defs)

text \<open>
  Claim C4, amended: when the session's \<^verbatim>\<open>run\<close> raises on the constraint statement, the
  exception comes out of \<^verbatim>\<open>_ensure_constraints\<close> and of \<^verbatim>\<open>create_node\<close> as it was raised and
  the class is not added to the constraint cache, so that a subsequent \<^verbatim>\<open>create_node\<close> for
  the class on a session that is no transaction issues the constraint statement again; on a
  transaction the subsequent call issues no constraint statement.
\<close>

theorem constraint_failure_not_cached:
  assumes "\<not> is_transaction s" "cls_id (model_type m) \<notin> known_constraints st"
    and "extract_key_fields (model_type m) \<noteq> []"
    and "create_node_labels m = l # ls"
    and "run s (run_calls st)
           (constraint_query (model_type m) l (extract_key_fields (model_type m)), []) = Inl e"
  shows "ensure_constraints s (model_type m) (create_node_labels m) st =
           (Inl e, st\<lparr>run_calls := run_calls st @
              [(constraint_query (model_type m) l (extract_key_fields (model_type m)), [])]\<rparr>)
       \<and> create_node s m st =
           (Inl e, st\<lparr>run_calls := run_calls st @
              [(constraint_query (model_type m) l (extract_key_fields (model_type m)), [])]\<rparr>)
       \<and> known_constraints (snd (create_node s m st)) = known_constraints st
       \<and> (\<forall>s2 m2. \<not> is_transaction s2 \<and> model_type m2 = model_type m \<longrightarrow>
            (\<exists>rest. run_calls (snd (create_node s2 m2 (snd (create_node s m st)))) =
               run_calls (snd (create_node s m st))
                 @ (constraint_query (model_type m) l (extract_key_fields (model_type m)), [])
                 # rest))
       \<and> (\<forall>s2 m2. is_transaction s2 \<longrightarrow>
            constraint_statements (snd (create_node s2 m2 (snd (create_node s m st)))) =
              constraint_statements (snd (create_node s m st)))"
proof -
  let ?q = "(constraint_query (model_type m) l (extract_key_fields (model_type m)), [])"
  let ?st1 = "st\<lparr>run_calls := run_calls st @ [?q]\<rparr>"
  have ens: "ensure_constraints s (model_type m) (create_node_labels m) st = (Inl e, ?st1)"
    using ensure_constraints_raises [OF assms(1,2,3,5), of ls] assms(4) by simp
  then have node: "create_node s m st = (Inl e, ?st1)"
    using assms(2) by (intro create_node_ensure_raises) simp
  have again: "\<exists>rest. run_calls (snd (create_node s2 m2 ?st1)) = run_calls ?st1 @ ?q # rest"
    if "\<not> is_transaction s2" "model_type m2 = model_type m" for s2 m2
  proof -
    have "cls_id (model_type m2) \<notin> known_constraints ?st1"
      "extract_key_fields (model_type m2) \<noteq> []" "create_node_labels m2 = l # ls"
      using that assms(2,3,4) create_node_labels_cong [OF that(2)] by simp_all
    from create_node_emits [OF that(1) this] that(2) show ?thesis
      by simp
  qed
  have skipped: "constraint_statements (snd (create_node s2 m2 ?st1)) = constraint_statements ?st1"
    if "is_transaction s2" for s2 m2
    using create_node_skipped [of s2 m2 ?st1] that by simp
  show ?thesis
    using ens node again skipped by simp
qed

theorem constraint_failure_not_cached_witness:
  "\<not> is_transaction failing_session
   \<and> cls_id (model_type alice) \<notin> known_constraints init_state
   \<and> extract_key_fields (model_type alice) \<noteq> []
   \<and> create_node_labels alice = [''Person'']
   \<and> create_node failing_session alice init_state =
       (Inl (raise DriverError ''unavailable''),
        \<lparr>known_constraints = {},
         run_calls = [(''CREATE CONSTRAINT Person_unique IF NOT EXISTS FOR (n:Person) REQUIRE (n.name) IS UNIQUE'', [])]\<rparr>)
   \<and> (\<exists>rest. run_calls (snd (create_node node_session bob
                                (snd (create_node failing_session alice init_state)))) =
         run_calls (snd (create_node failing_session alice init_state))
           @ (''CREATE CONSTRAINT Person_unique IF NOT EXISTS FOR (n:Person) REQUIRE (n.name) IS UNIQUE'', [])
           # rest)"
proof -
  have hyps: "\<not> is_transaction failing_session"
    "cls_id (model_type alice) \<notin> known_constraints init_state"
    "extract_key_fields (model_type alice) \<noteq> []"
    "create_node_labels alice = ''Person'' # []"
    "run failing_session (run_calls init_state)
       (constraint_query (model_type alice) ''Person'' (extract_key_fields (model_type alice)), [])
     = Inl (raise DriverError ''unavailable'')"
    by (simp_all add: engine_defs example_defs)
  have q: "constraint_query (model_type alice) ''Person'' (extract_key_fields (model_type alice))
     = ''CREATE CONSTRAINT Person_unique IF NOT EXISTS FOR (n:Person) REQUIRE (n.name) IS UNIQUE''"
    by (simp add: engine_defs example_defs)
  have later: "\<not> is_transaction node_session \<and> model_type bob = model_type alice"
    by (simp add: example_defs)
  note failed = constraint_failure_not_cached [OF hyps]
  from failed have node: "create_node failing_session alice init_state =
       (Inl (raise DriverError ''unavailable''),
        \<lparr>known_constraints = {},
         run_calls = [(''CREATE CONSTRAINT Person_unique IF NOT EXISTS FOR (n:Person) REQUIRE (n.name) IS UNIQUE'', [])]\<rparr>)"
    unfolding q by (simp add: init_state_def)
  from failed later have again:
    "\<exists>rest. run_calls (snd (create_node node_session bob
                                (snd (create_node failing_session alice init_state)))) =
         run_calls (snd (create_node failing_session alice init_state))
           @ (constraint_query (model_type alice) ''Person''
                (extract_key_fields (model_type alice)), [])
           # rest"
    by blast
  show ?thesis
    using hyps(1-4) node again [unfolded q] by simp
qed

text \<open>
  Claim C1, as stated: for every class with a unique field, any number of
  \<^verbatim>\<open>create_node\<close> calls on sessions that are no transactions issue exactly one constraint
  statement. Two calls on a session whose \<^verbatim>\<open>run\<close> raises issue two, and two calls for a
  class whose declared label list is empty issue none.
\<close>

theorem create_nodes_constraint_count_counterexample:
  "extract_key_fields person_cls \<noteq> [] \<and> \<not> is_transaction failing_session
   \<and> length (constraint_statements
        (create_nodes [(failing_session, alice), (failing_session, bob)] init_state)) = 2
   \<and> extract_key_fields ghost_cls \<noteq> [] \<and> \<not> is_transaction node_session
   \<and> length (constraint_statements
        (create_nodes [(node_session, ghost), (node_session, ghost)] init_state)) = 0"
  by (simp add: engine_defs example_defs constraint_statements_def is_constraint_statement_def)

text \<open>
  Claim C1, amended: for every class that has a unique field and a non-empty label list and
  is not yet in the constraint cache, one or more sequential \<^verbatim>\<open>create_node\<close> calls for
  instances of the class, on sessions that are no transactions, issue exactly one constraint
  statement, provided the session does not raise on it: the first call issues it and every
  later call finds the class in the cache.
\<close>

theorem create_nodes_one_constraint_statement:
  assumes "\<forall>(s, m) \<in> set ((s1, m1) # calls). \<not> is_transaction s \<and> model_type m = c"
    and "extract_key_fields c \<noteq> []"
    and "extract_labels c = l # ls"
    and "cls_id c \<notin> known_constraints st"
    and "run s1 (run_calls st) (constraint_query c l (extract_key_fields c), []) = Inr rows"
  shows "constraint_statements (create_nodes ((s1, m1) # calls) st) =
           constraint_statements st @ [(constraint_query c l (extract_key_fields c), [])]"
proof -
  have m1: "model_type m1 = c" and s1: "\<not> is_transaction s1"
    using assms(1) by simp_all
  have labels: "create_node_labels m1 = l # ls"
    using assms(3) m1 by (simp add: create_node_labels_extract)
  have first: "cls_id c \<in> known_constraints (snd (create_node s1 m1 st))"
    "constraint_statements (snd (create_node s1 m1 st)) =
       constraint_statements st @ [(constraint_query c l (extract_key_fields c), [])]"
    using create_node_first [OF s1 _ _ labels, of st rows] assms(2,4,5) m1 by simp_all
  have "\<forall>(s, m) \<in> set calls. cls_id (model_type m) = cls_id c"
    using assms(1) by auto
  from create_nodes_cached [OF this first(1)] first(2) show ?thesis
    by simp
qed

theorem create_nodes_one_constraint_statement_witness:
  "\<not> is_transaction node_session \<and> \<not> is_transaction silent_session
   \<and> model_type alice = person_cls \<and> model_type bob = person_cls
   \<and> extract_key_fields person_cls \<noteq> []
   \<and> extract_labels person_cls = [''Person'']
   \<and> cls_id person_cls \<notin> known_constraints init_state
   \<and> constraint_statements
        (create_nodes [(node_session, alice), (silent_session, bob), (node_session, alice)]
           init_state) =
       [(''CREATE CONSTRAINT Person_unique IF NOT EXISTS FOR (n:Person) REQUIRE (n.name) IS UNIQUE'', [])]"
proof -
  have hyps: "\<forall>(s, m) \<in> set ((node_session, alice) # [(silent_session, bob), (node_session, alice)]).
       \<not> is_transaction s \<and> model_type m = person_cls"
    "extract_key_fields person_cls \<noteq> []"
    "extract_labels person_cls = ''Person'' # []"
    "cls_id person_cls \<notin> known_constraints init_state"
    "run node_session (run_calls init_state)
       (constraint_query person_cls ''Person'' (extract_key_fields person_cls), [])
     = Inr [[(''n'', VObject ''Node'')]]"
    by (simp_all add: engine_defs example_defs)
  have q: "constraint_query person_cls ''Person'' (extract_key_fields person_cls)
     = ''CREATE CONSTRAINT Person_unique IF NOT EXISTS FOR (n:Person) REQUIRE (n.name) IS UNIQUE''"
    by (simp add: engine_defs example_defs)
  have none: "constraint_statements init_state = []"
    by (simp add: constraint_statements_def init_state_def)
  show ?thesis
    using create_nodes_one_constraint_statement [OF hyps] hyps(1-4)
    unfolding q none by simp
qed

text \<open>
  Claim C9, as stated: after \<^verbatim>\<open>_ensure_constraints\<close> has skipped because the label list is
  empty, a later \<^verbatim>\<open>create_node\<close> for the same class on a session that is no transaction
  issues the constraint statement. The label list of the class is as empty at the later call,
  which skips again: no constraint statement is ever issued for the class.
\<close>

theorem empty_labels_never_emit_counterexample:
  "create_node_labels ghost = [] \<and> extract_key_fields ghost_cls \<noteq> []
   \<and> \<not> is_transaction node_session
   \<and> ensure_constraints node_session ghost_cls (create_node_labels ghost) init_state
       = (Inr (), init_state)
   \<and> cls_id ghost_cls \<notin> known_constraints (snd (create_node node_session ghost init_state))
   \<and> constraint_statements
        (snd (create_node node_session ghost (snd (create_node node_session ghost init_state))))
       = []"
  by (simp add: engine_defs example_defs constraint_statements_def is_constraint_statement_def)

text \<open>
  Claim C9, amended: when \<^verbatim>\<open>_ensure_constraints\<close> skips because the session is a
  transaction or because the label list is empty, it issues nothing and the class is not
  added to the constraint cache; a later \<^verbatim>\<open>create_node\<close> for the same class on a session
  that is no transaction issues the constraint statement when the class has a unique field
  and its label list is then non-empty.
\<close>

theorem skipped_constraints_not_cached:
  assumes "is_transaction s1 \<or> create_node_labels m1 = []"
  shows "ensure_constraints s1 (model_type m1) (create_node_labels m1) st = (Inr (), st)
       \<and> known_constraints (snd (create_node s1 m1 st)) = known_constraints st
       \<and> constraint_statements (snd (create_node s1 m1 st)) = constraint_statements st
       \<and> (\<forall>s2 m2 l ls.
            cls_id (model_type m1) \<notin> known_constraints st \<and> \<not> is_transaction s2
            \<and> cls_id (model_type m2) = cls_id (model_type m1)
            \<and> extract_key_fields (model_type m2) \<noteq> [] \<and> create_node_labels m2 = l # ls
            \<longrightarrow> (\<exists>rest. run_calls (snd (create_node s2 m2 (snd (create_node s1 m1 st)))) =
                   run_calls (snd (create_node s1 m1 st))
                     @ (constraint_query (model_type m2) l (extract_key_fields (model_type m2)), [])
                     # rest))"
proof -
  let ?st1 = "snd (create_node s1 m1 st)"
  have skip: "ensure_constraints s1 (model_type m1) (create_node_labels m1) st = (Inr (), st)"
    using assms by (intro ensure_constraints_skip) auto
  note same = create_node_skipped [OF assms, of st]
  have later: "\<exists>rest. run_calls (snd (create_node s2 m2 ?st1)) =
        run_calls ?st1
          @ (constraint_query (model_type m2) l (extract_key_fields (model_type m2)), []) # rest"
    if "cls_id (model_type m1) \<notin> known_constraints st" "\<not> is_transaction s2"
      "cls_id (model_type m2) = cls_id (model_type m1)"
      "extract_key_fields (model_type m2) \<noteq> []" "create_node_labels m2 = l # ls"
    for s2 m2 l ls
  proof -
    have "cls_id (model_type m2) \<notin> known_constraints ?st1"
      using that(1,3) same by simp
    from create_node_emits [OF that(2) this that(4,5)] show ?thesis .
  qed
  show ?thesis
    using skip same later by blast
qed

theorem skipped_constraints_not_cached_witness:
  "is_transaction transaction_session
   \<and> known_constraints (snd (create_node transaction_session alice init_state)) = {}
   \<and> constraint_statements (snd (create_node transaction_session alice init_state)) = []
   \<and> cls_id (model_type alice) \<notin> known_constraints init_state \<and> \<not> is_transaction node_session
   \<and> cls_id (model_type bob) = cls_id (model_type alice)
   \<and> extract_key_fields (model_type bob) \<noteq> [] \<and> create_node_labels bob = [''Person'']
   \<and> (\<exists>rest. run_calls (snd (create_node node_session bob
                                (snd (create_node transaction_session alice init_state)))) =
         run_calls (snd (create_node transaction_session alice init_state))
           @ (''CREATE CONSTRAINT Person_unique IF NOT EXISTS FOR (n:Person) REQUIRE (n.name) IS UNIQUE'', [])
           # rest)"
proof -
  have tx: "is_transaction transaction_session \<or> create_node_labels alice = []"
    by (simp add: transaction_session_def)
  have hyps: "cls_id (model_type alice) \<notin> known_constraints init_state \<and> \<not> is_transaction node_session
    \<and> cls_id (model_type bob) = cls_id (model_type alice)
    \<and> extract_key_fields (model_type bob) \<noteq> [] \<and> create_node_labels bob = ''Person'' # []"
    by (simp add: engine_defs example_defs)
  have q: "constraint_query (model_type bob) ''Person'' (extract_key_fields (model_type bob))
     = ''CREATE CONSTRAINT Person_unique IF NOT EXISTS FOR (n:Person) REQUIRE (n.name) IS UNIQUE''"
    by (simp add: engine_defs example_defs)
  note skipped = skipped_constraints_not_cached [OF tx, of init_state]
  from skipped have same:
    "known_constraints (snd (create_node transaction_session alice init_state)) = {}"
    "constraint_statements (snd (create_node transaction_session alice init_state)) = []"
    by (simp_all add: init_state_def constraint_statements_def)
  from skipped hyps have later:
    "\<exists>rest. run_calls (snd (create_node node_session bob
                                (snd (create_node transaction_session alice init_state)))) =
         run_calls (snd (create_node transaction_session alice init_state))
           @ (constraint_query (model_type bob) ''Person'' (extract_key_fields (model_type bob)), [])
           # rest"
    by blast
  show ?thesis
    using hyps same later [unfolded q] by (simp add: transaction_session_def)
qed

section \<open>Relationships\<close>

text \<open>
  Claim C7: \<^verbatim>\<open>create_relationship\<close>, given a relationship type or a properties instance,
  source and target instances that have their key attributes and parameters that
  \<^verbatim>\<open>json.dumps\<close> can write, issues its one statement with the relationship name bound as the
  parameter \<open>rel_name\<close>: the \<open>rel_type\<close> argument when one is given; otherwise the
  \<open>rel_type\<close> entry of the configuration of the class of the properties instance when there
  is one; otherwise the name of that class.
\<close>

theorem create_relationship_rel_name:
  assumes from_props: "key_props from_node (extract_key_fields (model_type from_node)) []
                         = Inr from_node_props"
    and to_props: "key_props to_node (extract_key_fields (model_type to_node)) []
                     = Inr to_node_props"
    and json: "json_serializable (VDict from_node_props)" "json_serializable (VDict to_node_props)"
      "json_serializable (VDict (case rel_props of Some p \<Rightarrow> model_dump p | None \<Rightarrow> []))"
    and given: "rel_type \<noteq> None \<or> rel_props \<noteq> None"
  shows "\<exists>rel_name.
           run_calls (snd (create_relationship s from_node to_node rel_props rel_type st)) =
             run_calls st
               @ [(''MATCH (a:'' @ str_join ''&'' (extract_labels (model_type from_node)) @ '' ''
                     @ build_match_clause (model_type from_node) ''from_node_props''
                     @ '') WITH a MATCH (b:''
                     @ str_join ''&'' (extract_labels (model_type to_node)) @ '' ''
                     @ build_match_clause (model_type to_node) ''to_node_props''
                     @ '') CREATE (a)-[r:$($rel_name) $rel_props]->(b) RETURN r'',
                   [(''from_node_props'', VDict from_node_props),
                    (''rel_name'', VStr rel_name),
                    (''rel_props'',
                       VDict (case rel_props of Some p \<Rightarrow> model_dump p | None \<Rightarrow> [])),
                    (''to_node_props'', VDict to_node_props)])]
         \<and> (\<forall>t. rel_type = Some t \<longrightarrow> rel_name = t)
         \<and> (\<forall>p t. rel_type = None \<and> rel_props = Some p
                \<and> cfg_rel_type (getattr_config (model_type p)) = Some t
                \<longrightarrow> rel_name = t)
         \<and> (\<forall>p. rel_type = None \<and> rel_props = Some p
                \<and> cfg_rel_type (getattr_config (model_type p)) = None
                \<longrightarrow> rel_name = cls_name (model_type p))"
proof -
  have query: "create_relationship_query (model_type from_node) (model_type to_node) =
      ''MATCH (a:'' @ str_join ''&'' (extract_labels (model_type from_node)) @ '' ''
        @ build_match_clause (model_type from_node) ''from_node_props''
        @ '') WITH a MATCH (b:''
        @ str_join ''&'' (extract_labels (model_type to_node)) @ '' ''
        @ build_match_clause (model_type to_node) ''to_node_props''
        @ '') CREATE (a)-[r:$($rel_name) $rel_props]->(b) RETURN r''"
    by (simp add: create_relationship_query_def)
  have calls: "run_calls (snd (create_relationship s from_node to_node rel_props (Some t) st)) =
      run_calls st
        @ [(create_relationship_query (model_type from_node) (model_type to_node),
            [(''from_node_props'', VDict from_node_props), (''rel_name'', VStr t),
             (''rel_props'', VDict (case rel_props of Some p \<Rightarrow> model_dump p | None \<Rightarrow> [])),
             (''to_node_props'', VDict to_node_props)])]" for t
    using from_props to_props json
    by (simp add: create_relationship_def Let_def run_single_calls,
        simp add: instrumented_run_def)
  have props: "run_calls (snd (create_relationship s from_node to_node (Some p) None st)) =
      run_calls st
        @ [(create_relationship_query (model_type from_node) (model_type to_node),
            [(''from_node_props'', VDict from_node_props),
             (''rel_name'', VStr (case cfg_rel_type (getattr_config (model_type p)) of
                                    Some t \<Rightarrow> t
                                  | None \<Rightarrow> cls_name (model_type p))),
             (''rel_props'', VDict (model_dump p)),
             (''to_node_props'', VDict to_node_props)])]"
    if "rel_props = Some p" for p
    using from_props to_props json that
    by (cases "cfg_rel_type (getattr_config (model_type p))")
       (simp_all add: create_relationship_def Let_def run_single_calls,
        simp_all add: instrumented_run_def)
  show ?thesis
  proof (cases rel_type)
    case (Some t)
    show ?thesis
      by (rule exI [of _ t]) (simp add: Some calls query)
  next
    case None
    then obtain p where p: "rel_props = Some p"
      using given by auto
    show ?thesis
      by (rule exI [of _ "case cfg_rel_type (getattr_config (model_type p)) of
                            Some t \<Rightarrow> t | None \<Rightarrow> cls_name (model_type p)"])
         (simp add: None p props [OF p] query)
  qed
qed

theorem create_relationship_rel_name_witness:
  "run_calls (snd (create_relationship transaction_session alice bob None (Some ''KNOWS'')
                     init_state)) =
     [(''MATCH (a:Person {name:$from_node_props.name}) WITH a MATCH (b:Person {name:$to_node_props.name}) CREATE (a)-[r:$($rel_name) $rel_props]->(b) RETURN r'',
       [(''from_node_props'', VDict [(''name'', VStr ''Alice'')]),
        (''rel_name'', VStr ''KNOWS''),
        (''rel_props'', VDict []),
        (''to_node_props'', VDict [(''name'', VStr ''Bob'')])])]
   \<and> map_of (snd (last (run_calls (snd (create_relationship node_session alice bob
                                          (Some employment) (Some ''KNOWS'') init_state)))))
        ''rel_name'' = Some (VStr ''KNOWS'')
   \<and> map_of (snd (last (run_calls (snd (create_relationship node_session alice bob
                                          (Some employment) None init_state)))))
        ''rel_name'' = Some (VStr ''EMPLOYED_BY'')
   \<and> map_of (snd (last (run_calls (snd (create_relationship node_session alice bob
                                          (Some friendship) None init_state)))))
        ''rel_name'' = Some (VStr ''Friendship'')"
proof -
  have keys: "key_props alice (extract_key_fields (model_type alice)) []
                = Inr [(''name'', VStr ''Alice'')]"
    "key_props bob (extract_key_fields (model_type bob)) [] = Inr [(''name'', VStr ''Bob'')]"
    by (simp_all add: engine_defs example_defs)
  have json: "json_serializable (VDict [(''name'', VStr ''Alice'')])"
    "json_serializable (VDict [(''name'', VStr ''Bob'')])"
    "json_serializable (VDict (case None of Some p \<Rightarrow> model_dump p | None \<Rightarrow> []))"
    "json_serializable (VDict (case Some employment of Some p \<Rightarrow> model_dump p | None \<Rightarrow> []))"
    "json_serializable (VDict (case Some friendship of Some p \<Rightarrow> model_dump p | None \<Rightarrow> []))"
    by (simp_all add: example_defs)
  have cfg: "cfg_rel_type (getattr_config (model_type employment)) = Some ''EMPLOYED_BY''"
    "cfg_rel_type (getattr_config (model_type friendship)) = None"
    "cls_name (model_type friendship) = ''Friendship''"
    by (simp_all add: engine_defs example_defs)
  have rendered: "str_join ''&'' (extract_labels (model_type alice)) = ''Person''"
    "build_match_clause (model_type alice) ''from_node_props'' = ''{name:$from_node_props.name}''"
    "str_join ''&'' (extract_labels (model_type bob)) = ''Person''"
    "build_match_clause (model_type bob) ''to_node_props'' = ''{name:$to_node_props.name}''"
    by (simp_all add: engine_defs example_defs)
  have a: "run_calls (snd (create_relationship transaction_session alice bob None (Some ''KNOWS'')
                     init_state)) =
     [(''MATCH (a:Person {name:$from_node_props.name}) WITH a MATCH (b:Person {name:$to_node_props.name}) CREATE (a)-[r:$($rel_name) $rel_props]->(b) RETURN r'',
       [(''from_node_props'', VDict [(''name'', VStr ''Alice'')]),
        (''rel_name'', VStr ''KNOWS''),
        (''rel_props'', VDict []),
        (''to_node_props'', VDict [(''name'', VStr ''Bob'')])])]"
    using create_relationship_rel_name
            [OF keys json(1,2,3), of "Some ''KNOWS''" transaction_session init_state]
    unfolding rendered by (auto simp: init_state_def)
  have b: "map_of (snd (last (run_calls (snd (create_relationship node_session alice bob
                                          (Some employment) (Some ''KNOWS'') init_state)))))
        ''rel_name'' = Some (VStr ''KNOWS'')"
    using create_relationship_rel_name
            [OF keys json(1,2,4), of "Some ''KNOWS''" node_session init_state]
    by auto
  have c: "map_of (snd (last (run_calls (snd (create_relationship node_session alice bob
                                          (Some employment) None init_state)))))
        ''rel_name'' = Some (VStr ''EMPLOYED_BY'')"
    using create_relationship_rel_name [OF keys json(1,2,4), of None node_session init_state] cfg
    by auto
  have d: "map_of (snd (last (run_calls (snd (create_relationship node_session alice bob
                                          (Some friendship) None init_state)))))
        ''rel_name'' = Some (VStr ''Friendship'')"
    using create_relationship_rel_name [OF keys json(1,2,5), of None node_session init_state] cfg
    by auto
  show ?thesis
    using a b c d by simp
qed

text \<open>
  Claim C2: \<^verbatim>\<open>retrieve_relationship_edges\<close>, given an edge type that passes the validation,
  an instance that has its key attributes and parameters that \<^verbatim>\<open>json.dumps\<close> can write,
  issues one statement, on any session. For each of the directions INCOMING, OUTGOING and
  UNDIRECTED the statement has the shape of that direction, with the labels of the class
  joined by \<open>&\<close> and its match clause. The relationship name is the parameter \<open>rel_name\<close>
  of the call; the text of the statement refers to it as \<open>$($rel_name)\<close> and does not
  depend on it.
\<close>

theorem retrieve_relationship_edges_query_shape:
  assumes edge: "validate_edge_type edge_type = Inr (target_cls, prop_cls)"
    and keys: "key_props m (extract_key_fields (model_type m)) [] = Inr from_node_props"
    and json: "json_serializable (VDict from_node_props)"
  shows "\<exists>q. run_calls (snd (retrieve_relationship_edges validate s m rel_name direction
                                edge_type st)) =
               run_calls st
                 @ [(q, [(''from_node_props'', VDict from_node_props),
                         (''rel_name'', VStr rel_name)])]
          \<and> (\<forall>other. run_calls (snd (retrieve_relationship_edges validate s m other direction
                                         edge_type st)) =
                 run_calls st
                   @ [(q, [(''from_node_props'', VDict from_node_props),
                           (''rel_name'', VStr other)])])
          \<and> (direction = ''INCOMING'' \<longrightarrow>
                q = ''MATCH (b)-[r:$($rel_name)]->(a:''
                    @ str_join ''&'' (extract_labels (model_type m)) @ '' ''
                    @ build_match_clause (model_type m) ''from_node_props'' @ '') RETURN r, b'')
          \<and> (direction = ''OUTGOING'' \<longrightarrow>
                q = ''MATCH (a:'' @ str_join ''&'' (extract_labels (model_type m)) @ '' ''
                    @ build_match_clause (model_type m) ''from_node_props''
                    @ '')-[r:$($rel_name)]->(b) RETURN r, b'')
          \<and> (direction = ''UNDIRECTED'' \<longrightarrow>
                q = ''MATCH (a:'' @ str_join ''&'' (extract_labels (model_type m)) @ '' ''
                    @ build_match_clause (model_type m) ''from_node_props''
                    @ '')-[r:$($rel_name)]-(b) RETURN r, b'')"
proof -
  have calls: "run_calls (snd (retrieve_relationship_edges validate s m name direction
                                 edge_type st)) =
                 run_calls st
                   @ [(retrieve_query (model_type m) direction,
                       [(''from_node_props'', VDict from_node_props), (''rel_name'', VStr name)])]"
    for name
    using assms unfolding retrieve_relationship_edges_def instrumented_run_def
    by (auto split: sum.splits prod.splits)
  have incoming: "retrieve_query c ''INCOMING'' =
       ''MATCH (b)-[r:$($rel_name)]->(a:'' @ str_join ''&'' (extract_labels c) @ '' ''
       @ build_match_clause c ''from_node_props'' @ '') RETURN r, b''" for c
    by (simp add: retrieve_query_def)
  have outgoing: "retrieve_query c ''OUTGOING'' =
       ''MATCH (a:'' @ str_join ''&'' (extract_labels c) @ '' ''
       @ build_match_clause c ''from_node_props'' @ '')-[r:$($rel_name)]->(b) RETURN r, b''" for c
    by (simp add: retrieve_query_def)
  have undirected: "retrieve_query c ''UNDIRECTED'' =
       ''MATCH (a:'' @ str_join ''&'' (extract_labels c) @ '' ''
       @ build_match_clause c ''from_node_props'' @ '')-[r:$($rel_name)]-(b) RETURN r, b''" for c
    by (simp add: retrieve_query_def)
  show ?thesis
    apply (rule exI [of _ "retrieve_query (model_type m) direction"])
    using calls incoming outgoing undirected by simp
qed

theorem retrieve_relationship_edges_query_shape_witness:
  "validate_edge_type friend_edge = Inr (person_cls, friendship_cls)
   \<and> run_calls (snd (retrieve_relationship_edges plain_validate silent_session alice
                       ''FRIENDS_WITH'' ''INCOMING'' friend_edge init_state)) =
       [(''MATCH (b)-[r:$($rel_name)]->(a:Person {name:$from_node_props.name}) RETURN r, b'',
         [(''from_node_props'', VDict [(''name'', VStr ''Alice'')]),
          (''rel_name'', VStr ''FRIENDS_WITH'')])]
   \<and> run_calls (snd (retrieve_relationship_edges plain_validate silent_session alice
                       ''FRIENDS_WITH'' ''OUTGOING'' friend_edge init_state)) =
       [(''MATCH (a:Person {name:$from_node_props.name})-[r:$($rel_name)]->(b) RETURN r, b'',
         [(''from_node_props'', VDict [(''name'', VStr ''Alice'')]),
          (''rel_name'', VStr ''FRIENDS_WITH'')])]
   \<and> run_calls (snd (retrieve_relationship_edges plain_validate silent_session alice
                       ''FRIENDS_WITH'' ''UNDIRECTED'' friend_edge init_state)) =
       [(''MATCH (a:Person {name:$from_node_props.name})-[r:$($rel_name)]-(b) RETURN r, b'',
         [(''from_node_props'', VDict [(''name'', VStr ''Alice'')]),
          (''rel_name'', VStr ''FRIENDS_WITH'')])]
   \<and> run_calls (snd (retrieve_relationship_edges plain_validate transaction_session friendship
                       ''LINKS'' ''OUTGOING'' friend_edge init_state)) =
       [(''MATCH (a:Friendship )-[r:$($rel_name)]->(b) RETURN r, b'',
         [(''from_node_props'', VDict []), (''rel_name'', VStr ''LINKS'')])]"
proof -
  have edge: "validate_edge_type friend_edge = Inr (person_cls, friendship_cls)"
    by (simp add: validate_edge_type_def example_defs)
  have keys: "key_props alice (extract_key_fields (model_type alice)) []
                = Inr [(''name'', VStr ''Alice'')]"
    and json: "json_serializable (VDict [(''name'', VStr ''Alice'')])"
    by (simp_all add: engine_defs example_defs)
  have no_keys: "key_props friendship (extract_key_fields (model_type friendship)) [] = Inr []"
    and no_json: "json_serializable (VDict [])"
    by (simp_all add: engine_defs example_defs)
  have rendered: "str_join ''&'' (extract_labels (model_type alice)) = ''Person''"
    "build_match_clause (model_type alice) ''from_node_props'' = ''{name:$from_node_props.name}''"
    "str_join ''&'' (extract_labels (model_type friendship)) = ''Friendship''"
    "build_match_clause (model_type friendship) ''from_node_props'' = ''''"
    by (simp_all add: engine_defs example_defs)
  note shape = retrieve_relationship_edges_query_shape [OF edge keys json, of plain_validate
                 silent_session "''FRIENDS_WITH''" _ init_state]
  have a: "run_calls (snd (retrieve_relationship_edges plain_validate silent_session alice
                       ''FRIENDS_WITH'' ''INCOMING'' friend_edge init_state)) =
       [(''MATCH (b)-[r:$($rel_name)]->(a:Person {name:$from_node_props.name}) RETURN r, b'',
         [(''from_node_props'', VDict [(''name'', VStr ''Alice'')]),
          (''rel_name'', VStr ''FRIENDS_WITH'')])]"
    using shape [of "''INCOMING''"] unfolding rendered by (auto simp: init_state_def)
  have b: "run_calls (snd (retrieve_relationship_edges plain_validate silent_session alice
                       ''FRIENDS_WITH'' ''OUTGOING'' friend_edge init_state)) =
       [(''MATCH (a:Person {name:$from_node_props.name})-[r:$($rel_name)]->(b) RETURN r, b'',
         [(''from_node_props'', VDict [(''name'', VStr ''Alice'')]),
          (''rel_name'', VStr ''FRIENDS_WITH'')])]"
    using shape [of "''OUTGOING''"] unfolding rendered by (auto simp: init_state_def)
  have c: "run_calls (snd (retrieve_relationship_edges plain_validate silent_session alice
                       ''FRIENDS_WITH'' ''UNDIRECTED'' friend_edge init_state)) =
       [(''MATCH (a:Person {name:$from_node_props.name})-[r:$($rel_name)]-(b) RETURN r, b'',
         [(''from_node_props'', VDict [(''name'', VStr ''Alice'')]),
          (''rel_name'', VStr ''FRIENDS_WITH'')])]"
    using shape [of "''UNDIRECTED''"] unfolding rendered by (auto simp: init_state_def)
  have d: "run_calls (snd (retrieve_relationship_edges plain_validate transaction_session friendship
                       ''LINKS'' ''OUTGOING'' friend_edge init_state)) =
       [(''MATCH (a:Friendship )-[r:$($rel_name)]->(b) RETURN r, b'',
         [(''from_node_props'', VDict []), (''rel_name'', VStr ''LINKS'')])]"
    using retrieve_relationship_edges_query_shape [OF edge no_keys no_json, of plain_validate
            transaction_session "''LINKS''" "''OUTGOING''" init_state]
    unfolding rendered by (auto simp: init_state_def)
  show ?thesis
    using edge a b c d by simp
qed

end
